theory Spec2Isabelle
  imports Main "HOL-Library.Multiset"
begin

section \<open>Python values used by \<open>extract_text_from_pptx\<close>\<close>

text \<open>
  The development embeds \<open>extract_text_from_pptx\<close> of \<open>ppt-xtract.py\<close> (lines 56 to 109).
  Python strings are HOL strings (code points below 256). The objects handed out by the
  libraries carry values of their nominal types: the \<open>top\<close> of a shape is an integer
  (a length in EMU), a notes slide has its notes text frame.
\<close>

text \<open>\<open>str.isspace\<close> on one character, for the code points below 256.\<close>

definition isspace :: "char \<Rightarrow> bool" where
  "isspace c =
     (let n = (of_char c :: nat)
      in (9 \<le> n \<and> n \<le> 13) \<or> (28 \<le> n \<and> n \<le> 32) \<or> n = 133 \<or> n = 160)"

text \<open>\<open>s.strip()\<close>: leading and trailing whitespace removed.\<close>

definition strip :: "string \<Rightarrow> string" where
  "strip s = rev (dropWhile isspace (rev (dropWhile isspace s)))"

text \<open>\<open>sep.join(xs)\<close>.\<close>

fun join :: "string \<Rightarrow> string list \<Rightarrow> string" where
  "join sep [] = []"
| "join sep [x] = x"
| "join sep (x # y # ys) = x @ sep @ join sep (y # ys)"

text \<open>\<open>s.startswith(p)\<close> and the substring test \<open>sub in s\<close>.\<close>

fun startswith :: "string \<Rightarrow> string \<Rightarrow> bool" where
  "startswith s [] = True"
| "startswith [] (p # ps) = False"
| "startswith (c # cs) (p # ps) = (c = p \<and> startswith cs ps)"

fun str_in :: "string \<Rightarrow> string \<Rightarrow> bool" where
  "str_in sub [] = (sub = [])"
| "str_in sub (c # cs) = (startswith (c # cs) sub \<or> str_in sub cs)"

text \<open>\<open>os.path.basename(p)\<close> (POSIX): what follows the last slash.\<close>

definition basename :: "string \<Rightarrow> string" where
  "basename p = rev (takeWhile (\<lambda>c. c \<noteq> CHR ''/'') (rev p))"

text \<open>The decimal rendering of a natural number, as the f-string \<open>f'{i}'\<close> gives it.\<close>

fun str_nat :: "nat \<Rightarrow> string" where
  "str_nat n = (if n < 10 then [''0123456789'' ! n]
                else str_nat (n div 10) @ [''0123456789'' ! (n mod 10)])"

declare str_nat.simps [simp del]

datatype py_exn =
    PackageNotFoundError
  | BadZipFile
  | ParseError
  | TypeError
  | AttributeError string

section \<open>ElementTree\<close>

text \<open>
  An element: its expanded tag \<open>{uri}local\<close>, its attributes, its text (\<open>None\<close> when the
  element has none) and its children in document order.
\<close>

datatype xml =
  Element (tag: string) (attrib: "(string \<times> string) list") (etext: "string option")
    (children: "xml list")

text \<open>The namespace map \<open>ns\<close> of the source (lines 50 to 54).\<close>

definition ns_p :: string where
  "ns_p = ''http://schemas.openxmlformats.org/presentationml/2006/main''"

definition ns_a :: string where
  "ns_a = ''http://schemas.openxmlformats.org/drawingml/2006/main''"

definition ns_r :: string where
  "ns_r = ''http://schemas.openxmlformats.org/officeDocument/2006/relationships''"

definition qname :: "string \<Rightarrow> string \<Rightarrow> string" where
  "qname uri local = ''{'' @ uri @ ''}'' @ local"

text \<open>The proper descendants of an element in document order (\<open>elem.iter()\<close> without
  the element itself).\<close>

fun descendants :: "xml \<Rightarrow> xml list" where
  "descendants (Element t a x cs) = concat (map (\<lambda>c. c # descendants c) cs)"

text \<open>The path \<open>.//t\<close>: every proper descendant with tag \<open>t\<close>.\<close>

definition findall_descendant :: "string \<Rightarrow> xml \<Rightarrow> xml list" where
  "findall_descendant t e = filter (\<lambda>d. tag d = t) (descendants e)"

text \<open>The path step \<open>/t\<close>: the children with tag \<open>t\<close> of each selected element.\<close>

definition select_child :: "string \<Rightarrow> xml list \<Rightarrow> xml list" where
  "select_child t es = concat (map (\<lambda>e. filter (\<lambda>c. tag c = t) (children e)) es)"

text \<open>\<open>find\<close> is the first match of \<open>findall\<close>, or \<open>None\<close>.\<close>

definition find_first :: "xml list \<Rightarrow> xml option" where
  "find_first es = (case es of [] \<Rightarrow> None | e # _ \<Rightarrow> Some e)"

text \<open>The content of a part of the archive: \<open>ET.parse\<close> raises on what is not XML.\<close>

datatype part = NotXml | Xml xml

definition ET_parse :: "part \<Rightarrow> py_exn + xml" where
  "ET_parse p = (case p of NotXml \<Rightarrow> Inl ParseError | Xml t \<Rightarrow> Inr t)"

section \<open>The package\<close>

record shape =
  has_text_frame :: bool
  shape_top :: int
  paragraphs :: "string list"

record slide =
  shapes :: "shape list"
  notes_slide :: "string option"

type_synonym archive = "string \<Rightarrow> part option"

text \<open>
  The input file: either something that is no ZIP package, or a package with its slides
  (what \<open>Presentation(f).slides\<close> gives) and its named parts (what \<open>ZipFile(f)\<close> gives).
  \<open>notes_slide\<close> is \<open>None\<close> when \<open>has_notes_slide\<close> is false, otherwise the text of the notes
  text frame.
\<close>

datatype pptx_file = NotAPackage | Package "slide list" archive

definition Presentation :: "pptx_file \<Rightarrow> py_exn + slide list" where
  "Presentation f = (case f of NotAPackage \<Rightarrow> Inl PackageNotFoundError | Package prs zf \<Rightarrow> Inr prs)"

definition ZipFile :: "pptx_file \<Rightarrow> py_exn + archive" where
  "ZipFile f = (case f of NotAPackage \<Rightarrow> Inl BadZipFile | Package prs zf \<Rightarrow> Inr zf)"

section \<open>Comment resolution (lines 64 to 85)\<close>

text \<open>The dictionary \<open>all_comments\<close>: slide number to the list of its comment lines.\<close>

type_synonym comments_dict = "nat \<Rightarrow> string list option"

definition setdefault :: "comments_dict \<Rightarrow> nat \<Rightarrow> comments_dict" where
  "setdefault d i = (case d i of None \<Rightarrow> d(i \<mapsto> []) | Some l \<Rightarrow> d)"

text \<open>\<open>all_comments.get(i, [])\<close>.\<close>

definition dict_get :: "comments_dict \<Rightarrow> nat \<Rightarrow> string list" where
  "dict_get d i = (case d i of None \<Rightarrow> [] | Some l \<Rightarrow> l)"

text \<open>\<open>slide_comments.append(s)\<close>, where \<open>slide_comments\<close> is the list stored under \<open>i\<close>.\<close>

definition append_comment :: "comments_dict \<Rightarrow> nat \<Rightarrow> string \<Rightarrow> comments_dict" where
  "append_comment d i s = d(i \<mapsto> dict_get d i @ [s])"

text \<open>
  A loop of the scan ends normally with the dictionary, or raises with the dictionary as
  it stands at that moment (the appends made so far are kept: the lists are mutated in place).
\<close>

datatype outcome = Normal comments_dict | Raised py_exn comments_dict


text \<open>
  Lines 81 and 82 for one \<open>p:cm\<close> node: the values of \<open>author\<close> and \<open>text\<close>, or the
  exception. \<open>find\<close> gives \<open>None\<close> when no element matches, and the attribute access on
  \<open>None\<close> raises; \<open>text\<close> is evaluated first.
\<close>

definition comment_fields :: "xml \<Rightarrow> py_exn + (string \<times> string)" where
  "comment_fields comment =
     (case find_first (findall_descendant (qname ns_p ''text'') comment) of
        None \<Rightarrow> Inl (AttributeError ''text'')
      | Some te \<Rightarrow>
          (let text = (case etext te of None \<Rightarrow> [] | Some t \<Rightarrow> t)
           in case find_first (select_child (qname ns_p ''author'')
                     (findall_descendant (qname ns_p ''authorLst'') comment)) of
                None \<Rightarrow> Inl (AttributeError ''get'')
              | Some au \<Rightarrow>
                  (let author = (case map_of (attrib au) ''name'' of
                                   None \<Rightarrow> ''Unknown Author'' | Some n \<Rightarrow> n)
                   in Inr (author, text))))"

text \<open>Line 83: the line appended for the node, \<open>f"{author}: {text}"\<close>.\<close>

definition comment_entry :: "xml \<Rightarrow> py_exn + string" where
  "comment_entry comment =
     (case comment_fields comment of
        Inl e \<Rightarrow> Inl e
      | Inr (author, text) \<Rightarrow> Inr (author @ '': '' @ text))"

fun comment_loop :: "nat \<Rightarrow> xml list \<Rightarrow> comments_dict \<Rightarrow> outcome" where
  "comment_loop i [] d = Normal d"
| "comment_loop i (comment # cs) d =
     (case comment_entry comment of
        Inl e \<Rightarrow> Raised e d
      | Inr s \<Rightarrow> comment_loop i cs (append_comment d i s))"

fun rel_loop :: "archive \<Rightarrow> nat \<Rightarrow> xml list \<Rightarrow> comments_dict \<Rightarrow> outcome" where
  "rel_loop zf i [] d = Normal d"
| "rel_loop zf i (rel # rels) d =
     (case map_of (attrib rel) ''Target'' of
        None \<Rightarrow> Raised TypeError d
      | Some target \<Rightarrow>
          if str_in ''comments'' target then
            (case zf (''ppt/comments/'' @ basename target) of
               None \<Rightarrow> rel_loop zf i rels d
             | Some cf \<Rightarrow>
                 (case ET_parse cf of
                    Inl e \<Rightarrow> Raised e (setdefault d i)
                  | Inr comment_tree \<Rightarrow>
                      (case comment_loop i (findall_descendant (qname ns_p ''cm'') comment_tree)
                              (setdefault d i) of
                         Raised e d' \<Rightarrow> Raised e d'
                       | Normal d' \<Rightarrow> rel_loop zf i rels d')))
          else rel_loop zf i rels d)"

definition rel_file_path :: "nat \<Rightarrow> string" where
  "rel_file_path i = ''ppt/slides/_rels/slide'' @ str_nat i @ ''.xml.rels''"

text \<open>The body of the loop over the slide numbers, for one \<open>i\<close>.\<close>

definition slide_scan :: "archive \<Rightarrow> nat \<Rightarrow> comments_dict \<Rightarrow> outcome" where
  "slide_scan zf i d =
     (case zf (rel_file_path i) of
        None \<Rightarrow> Normal d
      | Some rel_file \<Rightarrow>
          (case ET_parse rel_file of
             Inl e \<Rightarrow> Raised e d
           | Inr rel_tree \<Rightarrow>
               rel_loop zf i (findall_descendant (qname ns_r ''Relationship'') rel_tree) d))"

fun slide_loop :: "archive \<Rightarrow> nat list \<Rightarrow> comments_dict \<Rightarrow> outcome" where
  "slide_loop zf [] d = Normal d"
| "slide_loop zf (i # js) d =
     (case slide_scan zf i d of
        Raised e d' \<Rightarrow> Raised e d'
      | Normal d' \<Rightarrow> slide_loop zf js d')"

text \<open>
  The \<open>try\<close> block with its handler: the dictionary as the block leaves it, and the
  warnings printed to the error stream (each stands for the line
  \<open>Warning: Could not extract comments. Error: e\<close>).
\<close>

definition collect_comments :: "pptx_file \<Rightarrow> nat \<Rightarrow> comments_dict \<times> py_exn list" where
  "collect_comments f n =
     (case ZipFile f of
        Inl e \<Rightarrow> (Map.empty, [e])
      | Inr zf \<Rightarrow>
          (case slide_loop zf [1..<Suc n] Map.empty of
             Normal d \<Rightarrow> (d, [])
           | Raised e d \<Rightarrow> (d, [e])))"

section \<open>Slide text (lines 87 to 107)\<close>

fun paragraphs_loop :: "string list \<Rightarrow> string list \<Rightarrow> string list" where
  "paragraphs_loop [] shape_text = shape_text"
| "paragraphs_loop (p # ps) shape_text =
     paragraphs_loop ps (if p \<noteq> [] then shape_text @ [p] else shape_text)"

fun shapes_loop :: "shape list \<Rightarrow> string list \<Rightarrow> string list" where
  "shapes_loop [] slide_text_parts = slide_text_parts"
| "shapes_loop (s # ss) slide_text_parts =
     shapes_loop ss
       (slide_text_parts @ [join ''  \<newline>'' (paragraphs_loop (paragraphs s) [])])"

text \<open>Line 89: the shapes with a text frame, sorted (stably) by \<open>top\<close>.\<close>

definition sorted_shapes :: "slide \<Rightarrow> shape list" where
  "sorted_shapes sl = sort_key shape_top (filter has_text_frame (shapes sl))"

definition add_notes :: "slide \<Rightarrow> string list \<Rightarrow> string list" where
  "add_notes sl slide_text_parts =
     (case notes_slide sl of
        None \<Rightarrow> slide_text_parts
      | Some notes_text \<Rightarrow>
          if strip notes_text \<noteq> []
          then slide_text_parts @ [''\<newline>--- Speaker Notes ---\<newline>'' @ notes_text]
          else slide_text_parts)"

definition slide_text :: "slide \<Rightarrow> string" where
  "slide_text sl =
     strip (join ''\<newline>\<newline>''
       (filter (\<lambda>t. t \<noteq> []) (add_notes sl (shapes_loop (sorted_shapes sl) []))))"

text \<open>A SlideRecord is the tuple \<open>(slide_number, slide_text, comments)\<close>.\<close>

type_synonym slide_record = "nat \<times> string \<times> string list"

text \<open>The loop over \<open>enumerate(prs.slides)\<close>, from index \<open>i\<close> on.\<close>

fun records_loop ::
  "nat \<Rightarrow> slide list \<Rightarrow> comments_dict \<Rightarrow> slide_record list \<Rightarrow> slide_record list" where
  "records_loop i [] all_comments extracted_data = extracted_data"
| "records_loop i (sl # sls) all_comments extracted_data =
     records_loop (Suc i) sls all_comments
       (extracted_data @ [(i + 1, slide_text sl, dict_get all_comments (i + 1))])"

text \<open>
  The result is the exception that reaches the caller, or the records together with the
  warnings written to the error stream.
\<close>

definition extract_text_from_pptx ::
  "pptx_file \<Rightarrow> bool \<Rightarrow> py_exn + (slide_record list \<times> py_exn list)" where
  "extract_text_from_pptx pptx_file include_comments =
     (case Presentation pptx_file of
        Inl e \<Rightarrow> Inl e
      | Inr prs \<Rightarrow>
          (let (all_comments, warnings) =
                 (if include_comments then collect_comments pptx_file (length prs)
                  else (Map.empty, []))
           in Inr (records_loop 0 prs all_comments [], warnings)))"


section \<open>The comment nodes of a slide, after the specification\<close>




section \<open>Example inputs\<close>

definition text_elem :: "string option \<Rightarrow> xml" where
  "text_elem t = Element (qname ns_p ''text'') [] t []"

definition author_elem :: "(string \<times> string) list \<Rightarrow> xml" where
  "author_elem a = Element (qname ns_p ''author'') a None []"

definition author_list :: "xml list \<Rightarrow> xml" where
  "author_list authors = Element (qname ns_p ''authorLst'') [] None authors"

definition cm :: "xml list \<Rightarrow> xml" where
  "cm cs = Element (qname ns_p ''cm'') [] None cs"

definition comment_node :: "string \<Rightarrow> string \<Rightarrow> xml" where
  "comment_node author t =
     cm [author_list [author_elem [(''name'', author)]], text_elem (Some t)]"

definition comment_part :: "xml list \<Rightarrow> part" where
  "comment_part cms = Xml (Element (qname ns_p ''cmLst'') [] None cms)"

definition relationship :: "string \<Rightarrow> xml" where
  "relationship target = Element (qname ns_r ''Relationship'') [(''Target'', target)] None []"

definition rels_part :: "string list \<Rightarrow> part" where
  "rels_part targets =
     Xml (Element (qname ns_r ''Relationships'') [] None (map relationship targets))"

definition title_shape :: "int \<Rightarrow> shape" where
  "title_shape y = \<lparr>has_text_frame = True, shape_top = y, paragraphs = [''Title'']\<rparr>"

definition subtitle_shape :: "int \<Rightarrow> shape" where
  "subtitle_shape y = \<lparr>has_text_frame = True, shape_top = y, paragraphs = [''Subtitle'']\<rparr>"

definition picture_shape :: "int \<Rightarrow> shape" where
  "picture_shape y = \<lparr>has_text_frame = False, shape_top = y, paragraphs = []\<rparr>"



definition title_slide :: slide where
  "title_slide = \<lparr>shapes = [subtitle_shape 20, picture_shape 5, title_shape 10], notes_slide = None\<rparr>"

text \<open>
  A comment node with its text and an empty author list, and packages with comment parts.
\<close>

definition bad_node :: xml where
  "bad_node = cm [text_elem (Some ''Fix typo''), author_list []]"

definition review_zf :: archive where
  "review_zf = map_of
     [(''ppt/slides/_rels/slide1.xml.rels'',
         rels_part [''../slideLayouts/slideLayout1.xml'', ''../comments/comment1.xml'']),
      (''ppt/comments/comment1.xml'',
         comment_part [comment_node ''Alice'' ''Looks good'', comment_node ''Bob'' ''Fix typo''])]"


definition one_comment_zf :: "xml \<Rightarrow> archive" where
  "one_comment_zf node = map_of
     [(''ppt/slides/_rels/slide1.xml.rels'', rels_part [''../comments/comment1.xml'']),
      (''ppt/comments/comment1.xml'', comment_part [node])]"

section \<open>The loops as list functions\<close>

lemma paragraphs_loop_filter:
  "paragraphs_loop ps acc = acc @ filter (\<lambda>p. p \<noteq> []) ps"
  by (induction ps arbitrary: acc) simp_all

lemma shapes_loop_map:
  "shapes_loop ss acc =
     acc @ map (\<lambda>s. join ''  \<newline>'' (filter (\<lambda>p. p \<noteq> []) (paragraphs s))) ss"
  by (induction ss arbitrary: acc) (simp_all add: paragraphs_loop_filter)

lemma records_loop_map:
  "records_loop i sls d acc =
     acc @ map (\<lambda>k. (i + k + 1, slide_text (sls ! k), dict_get d (i + k + 1))) [0..<length sls]"
proof (induction sls arbitrary: i acc)
  case Nil
  then show ?case by simp
next
  case (Cons sl sls)
  show ?case
    unfolding records_loop.simps Cons.IH length_Cons map_upt_Suc by simp
qed





lemma extract_Package:
  "extract_text_from_pptx (Package prs zf) inc =
     Inr (records_loop 0 prs (fst (if inc then collect_comments (Package prs zf) (length prs) else (Map.empty, []))) [],
          snd (if inc then collect_comments (Package prs zf) (length prs) else (Map.empty, [])))"
  by (simp add: extract_text_from_pptx_def Presentation_def split_beta)




lemma slide_text_unfold:
  "slide_text sl =
     strip (join ''\<newline>\<newline>''
       (filter (\<lambda>t. t \<noteq> [])
          (map (\<lambda>s. join ''  \<newline>'' (filter (\<lambda>p. p \<noteq> []) (paragraphs s))) (sorted_shapes sl)
           @ (case notes_slide sl of
                None \<Rightarrow> []
              | Some n \<Rightarrow> if strip n \<noteq> [] then [''\<newline>--- Speaker Notes ---\<newline>'' @ n] else []))))"
  by (simp add: slide_text_def add_notes_def shapes_loop_map split: option.split)


section \<open>The scan of the comment parts\<close>




















lemma collect_comments_Package:
  "collect_comments (Package prs zf) n =
     (case slide_loop zf [1..<Suc n] Map.empty of
        Normal d \<Rightarrow> (d, []) | Raised e d \<Rightarrow> (d, [e]))"
  by (simp add: collect_comments_def ZipFile_def)





lemma comment_fields_comment_node: "comment_fields (comment_node a t) = Inr (a, t)"
  by (simp add: comment_fields_def comment_node_def cm_def text_elem_def author_list_def
      author_elem_def findall_descendant_def select_child_def find_first_def qname_def)

lemma comment_entry_comment_node: "comment_entry (comment_node a t) = Inr (a @ '': '' @ t)"
  by (simp add: comment_entry_def comment_fields_comment_node)

lemma comment_entry_bad_node: "comment_entry bad_node = Inl (AttributeError ''get'')"
  by (simp add: comment_entry_def comment_fields_def bad_node_def cm_def text_elem_def
      author_list_def findall_descendant_def select_child_def find_first_def qname_def)

lemma cm_of_comment_node [simp]:
  "filter (\<lambda>d. tag d = qname ns_p ''cm'') (descendants (comment_node a t)) = []"
  "tag (comment_node a t) = qname ns_p ''cm''"
  by (simp_all add: comment_node_def cm_def text_elem_def author_list_def author_elem_def qname_def)

lemma cm_of_bad_node [simp]:
  "filter (\<lambda>d. tag d = qname ns_p ''cm'') (descendants bad_node) = []"
  "tag bad_node = qname ns_p ''cm''"
  by (simp_all add: bad_node_def cm_def text_elem_def author_list_def qname_def)

lemma relationship_simps [simp]:
  "tag (relationship t) = qname ns_r ''Relationship''"
  "attrib (relationship t) = [(''Target'', t)]"
  "descendants (relationship t) = []"
  by (simp_all add: relationship_def)

lemmas scan_eval = slide_scan_def rel_file_path_def str_nat.simps rels_part_def comment_part_def
  ET_parse_def findall_descendant_def basename_def setdefault_def append_comment_def dict_get_def
  comment_entry_comment_node comment_entry_bad_node

lemma extract_True:
  "extract_text_from_pptx (Package prs zf) True =
     (case slide_loop zf [1..<Suc (length prs)] Map.empty of
        Normal d \<Rightarrow> Inr (records_loop 0 prs d [], [])
      | Raised e d \<Rightarrow> Inr (records_loop 0 prs d [], [e]))"
  by (simp add: extract_text_from_pptx_def Presentation_def collect_comments_Package
      split: outcome.split)

section \<open>The claims\<close>

text \<open>
  Claim C1. The shapes considered for the body text of a slide are exactly the shapes
  with a text frame (each as often as the slide has it); they are ordered by increasing
  vertical position; shapes at the same vertical position keep their document order (the
  sort is stable); and when no two text shapes share a vertical position, any other
  document order of the same shapes gives the same reading order.
\<close>

theorem C1_reading_order:
  "mset (sorted_shapes sl) = filter_mset has_text_frame (mset (shapes sl))
   \<and> sorted (map shape_top (sorted_shapes sl))
   \<and> (\<forall>y. filter (\<lambda>s. shape_top s = y) (sorted_shapes sl)
            = filter (\<lambda>s. shape_top s = y) (filter has_text_frame (shapes sl)))
   \<and> (\<forall>sl'. mset (shapes sl') = mset (shapes sl)
            \<and> distinct (map shape_top (filter has_text_frame (shapes sl)))
          \<longrightarrow> sorted_shapes sl' = sorted_shapes sl)"
proof (intro conjI allI impI)
  show "mset (sorted_shapes sl) = filter_mset has_text_frame (mset (shapes sl))"
    by (simp add: sorted_shapes_def)
  show "sorted (map shape_top (sorted_shapes sl))"
    by (simp add: sorted_shapes_def)
  show "filter (\<lambda>s. shape_top s = y) (sorted_shapes sl)
          = filter (\<lambda>s. shape_top s = y) (filter has_text_frame (shapes sl))" for y
    unfolding sorted_shapes_def by (rule sort_key_stable)
next
  fix sl' :: slide
  assume h: "mset (shapes sl') = mset (shapes sl)
     \<and> distinct (map shape_top (filter has_text_frame (shapes sl)))"
  let ?xs = "filter has_text_frame (shapes sl')"
  let ?ys = "sort_key shape_top (filter has_text_frame (shapes sl))"
  have m: "mset ?xs = mset ?ys"
    using h by (simp only: mset_sort mset_filter)
  have "inj_on shape_top (set (filter has_text_frame (shapes sl)))"
    using h by (simp add: distinct_map)
  moreover have "set ?xs = set (filter has_text_frame (shapes sl))"
    using m by (metis mset_sort set_mset_mset)
  ultimately have i: "inj_on shape_top (set ?xs)" by simp
  have "sort_key shape_top ?xs = ?ys"
    by (rule sort_key_inj_key_eq [OF m i]) simp
  then show "sorted_shapes sl' = sorted_shapes sl"
    by (simp add: sorted_shapes_def)
qed

text \<open>
  The hypothesis of C1 at a slide built bottom shape first: the reading order is the one
  of the slide built top shape first, title before subtitle.
\<close>

theorem C1_reading_order_witness:
  "mset (shapes \<lparr>shapes = [title_shape 10, picture_shape 5, subtitle_shape 20], notes_slide = None\<rparr>)
     = mset (shapes \<lparr>shapes = [subtitle_shape 20, picture_shape 5, title_shape 10], notes_slide = None\<rparr>)
   \<and> distinct (map shape_top (filter has_text_frame
         (shapes \<lparr>shapes = [subtitle_shape 20, picture_shape 5, title_shape 10], notes_slide = None\<rparr>)))
   \<and> sorted_shapes \<lparr>shapes = [title_shape 10, picture_shape 5, subtitle_shape 20], notes_slide = None\<rparr>
       = sorted_shapes \<lparr>shapes = [subtitle_shape 20, picture_shape 5, title_shape 10], notes_slide = None\<rparr>
   \<and> sorted_shapes \<lparr>shapes = [subtitle_shape 20, picture_shape 5, title_shape 10], notes_slide = None\<rparr>
       = [title_shape 10, subtitle_shape 20]"
proof -
  let ?A = "\<lparr>shapes = [subtitle_shape 20, picture_shape 5, title_shape 10], notes_slide = None\<rparr>"
  let ?B = "\<lparr>shapes = [title_shape 10, picture_shape 5, subtitle_shape 20], notes_slide = None\<rparr>"
  have m: "mset (shapes ?B) = mset (shapes ?A)" by simp
  have d: "distinct (map shape_top (filter has_text_frame (shapes ?A)))"
    by (simp add: title_shape_def subtitle_shape_def picture_shape_def)
  have e: "sorted_shapes ?B = sorted_shapes ?A"
    using C1_reading_order [of ?A] m d by blast
  have v: "sorted_shapes ?A = [title_shape 10, subtitle_shape 20]"
    by (simp add: sorted_shapes_def title_shape_def subtitle_shape_def picture_shape_def)
  show ?thesis using m d e v by simp
qed






text \<open>
  Claim C4 against the code. A comment node whose author list is empty, or that has no
  author list, raises \<open>AttributeError\<close> (\<open>find\<close> gives \<open>None\<close>, and \<open>None\<close> has no \<open>get\<close>)
  instead of yielding the author "Unknown Author"; a node with no text element raises
  as well instead of yielding the empty text. The defaults apply only when the elements
  are there: an author element without a name, a text element without text. In the
  extraction the exception is absorbed: the slide has no comment and a warning is
  written.
\<close>

theorem C4_missing_author_raises:
  "comment_fields (cm [text_elem (Some t), author_list []]) = Inl (AttributeError ''get'')
   \<and> comment_fields (cm [text_elem (Some t)]) = Inl (AttributeError ''get'')
   \<and> comment_fields (cm [author_list [author_elem [(''name'', a)]]]) = Inl (AttributeError ''text'')
   \<and> comment_fields (cm [text_elem None, author_list [author_elem []]])
        = Inr (''Unknown Author'', [])
   \<and> extract_text_from_pptx (Package [title_slide] (one_comment_zf bad_node)) True
        = Inr ([(1, slide_text title_slide, [])], [AttributeError ''get''])"
proof (intro conjI)
  show "extract_text_from_pptx (Package [title_slide] (one_comment_zf bad_node)) True
        = Inr ([(1, slide_text title_slide, [])], [AttributeError ''get''])"
    by (simp add: extract_True upt_rec one_comment_zf_def scan_eval)
qed (simp_all add: comment_fields_def cm_def text_elem_def author_list_def author_elem_def
      findall_descendant_def select_child_def find_first_def qname_def)






text \<open>
  Claim C7. With comments disabled the extraction returns, without any warning, the
  records of the run with comments enabled, each with its slide number and body text
  unchanged and with the empty comment list.
\<close>

theorem C7_comments_disabled:
  "\<exists>recs warnings.
     extract_text_from_pptx (Package prs zf) True = Inr (recs, warnings)
     \<and> extract_text_from_pptx (Package prs zf) False
         = Inr (map (\<lambda>(n, t, c). (n, t, [])) recs, [])"
  by (simp add: extract_Package records_loop_map dict_get_def)

text \<open>
  C7 at a package with a comment part: the comments are there when enabled, and the
  comment list is empty, with the same body text, when disabled.
\<close>

theorem C7_comments_disabled_witness:
  "extract_text_from_pptx (Package [title_slide] review_zf) True
     = Inr ([(1, ''Title\<newline>\<newline>Subtitle'', [''Alice: Looks good'', ''Bob: Fix typo''])], [])
   \<and> extract_text_from_pptx (Package [title_slide] review_zf) False
     = Inr ([(1, ''Title\<newline>\<newline>Subtitle'', [])], [])"
proof -
  have t: "slide_text title_slide = ''Title\<newline>\<newline>Subtitle''"
    by (simp add: slide_text_unfold sorted_shapes_def title_slide_def title_shape_def
        subtitle_shape_def picture_shape_def strip_def isspace_def)
  have ev: "extract_text_from_pptx (Package [title_slide] review_zf) True
     = Inr ([(1, ''Title\<newline>\<newline>Subtitle'', [''Alice: Looks good'', ''Bob: Fix typo''])], [])"
    by (simp add: extract_True upt_rec review_zf_def scan_eval t)
  from C7_comments_disabled [of "[title_slide]" review_zf] ev show ?thesis
    by auto
qed






end
